theory Spec2Isabelle
  imports Main
begin

section \<open>String primitives of the source language\<close>

text \<open>
  A JavaScript string is modelled as a \<^typ>\<open>string\<close>. The four library methods the
  extractor uses are written out: \<open>s.startsWith(p)\<close>, \<open>s.endsWith(p)\<close>,
  \<open>s.includes(p)\<close> (named \<open>includesStr\<close> here) and the truthiness of a
  string (non-empty).
\<close>

fun startsWith :: "string \<Rightarrow> string \<Rightarrow> bool" where
  "startsWith s [] = True"
| "startsWith [] (p # ps) = False"
| "startsWith (c # cs) (p # ps) = (c = p \<and> startsWith cs ps)"

definition endsWith :: "string \<Rightarrow> string \<Rightarrow> bool" where
  "endsWith s p = startsWith (rev s) (rev p)"

fun includesStr :: "string \<Rightarrow> string \<Rightarrow> bool" where
  "includesStr [] p = (p = [])"
| "includesStr (c # cs) p = (startsWith (c # cs) p \<or> includesStr cs p)"

definition truthy :: "string \<Rightarrow> bool" where
  "truthy s = (s \<noteq> [])"

definition dropEnd :: "nat \<Rightarrow> string \<Rightarrow> string" where
  "dropEnd n s = rev (drop n (rev s))"

section \<open>The regular-expression replacements of the path converters\<close>

text \<open>
  \<open>s.replace(/\.(tsx|ts|jsx|js)$/, "")\<close>: the pattern is anchored at the end, and no
  alternative is a suffix of another, so at most one of the four suffixes matches.
\<close>

definition removeExtension :: "string \<Rightarrow> string" where
  "removeExtension s =
     (if endsWith s ''.tsx'' then dropEnd 4 s
      else if endsWith s ''.ts'' then dropEnd 3 s
      else if endsWith s ''.jsx'' then dropEnd 4 s
      else if endsWith s ''.js'' then dropEnd 3 s
      else s)"

text \<open>
  \<open>s.replace(/\[([^\]]+)\]/g, ":$1")\<close>. Scanning from the left, a match starts at an
  opening bracket that is followed by at least one character other than the closing
  bracket and then by a closing bracket; the group is everything up to that first closing
  bracket. The match is replaced by a colon and the group, and scanning goes on behind
  the closing bracket. Elsewhere the character is copied.
\<close>

function replaceDynamicSegments :: "string \<Rightarrow> string" where
  "replaceDynamicSegments [] = []"
| "replaceDynamicSegments (c # cs) =
     (let name = takeWhile (\<lambda>x. x \<noteq> CHR '']'') cs;
          rest = dropWhile (\<lambda>x. x \<noteq> CHR '']'') cs
      in if c = CHR ''['' \<and> name \<noteq> [] \<and> rest \<noteq> []
         then CHR '':'' # name @ replaceDynamicSegments (tl rest)
         else c # replaceDynamicSegments cs)"
  by pat_completeness auto
termination
proof (relation "measure length")
  show "wf (measure length)" by simp
next
  fix c :: char and cs name rest :: string
  assume "rest = dropWhile (\<lambda>x. x \<noteq> CHR '']'') cs"
  then have "length (tl rest) \<le> length cs"
    using length_dropWhile_le [of "\<lambda>x. x \<noteq> CHR '']''" cs] by simp
  then show "(tl rest, c # cs) \<in> measure length" by simp
next
  fix c :: char and cs :: string
  show "(cs, c # cs) \<in> measure length" by simp
qed

text \<open>
  \<open>s.replace(/\[\.\.\.([^\]]+)\]/g, "*")\<close>: as above, with three dots required behind
  the opening bracket, and the whole match replaced by a star.
\<close>

function replaceCatchAllSegments :: "string \<Rightarrow> string" where
  "replaceCatchAllSegments [] = []"
| "replaceCatchAllSegments (c # cs) =
     (let name = takeWhile (\<lambda>x. x \<noteq> CHR '']'') (drop 3 cs);
          rest = dropWhile (\<lambda>x. x \<noteq> CHR '']'') (drop 3 cs)
      in if c = CHR ''['' \<and> startsWith cs ''...'' \<and> name \<noteq> [] \<and> rest \<noteq> []
         then CHR ''*'' # replaceCatchAllSegments (tl rest)
         else c # replaceCatchAllSegments cs)"
  by pat_completeness auto
termination
proof (relation "measure length")
  show "wf (measure length)" by simp
next
  fix c :: char and cs name rest :: string
  assume "rest = dropWhile (\<lambda>x. x \<noteq> CHR '']'') (drop 3 cs)"
  then have "length (tl rest) \<le> length cs"
    using length_dropWhile_le [of "\<lambda>x. x \<noteq> CHR '']''" "drop 3 cs"] by simp
  then show "(tl rest, c # cs) \<in> measure length" by simp
next
  fix c :: char and cs :: string
  show "(cs, c # cs) \<in> measure length" by simp
qed

section \<open>The two file-path converters\<close>

text \<open>
  \<open>convertNextJSAppPathToRoute\<close>. The source's result type is \<open>string | null\<close>; it
  never returns \<open>null\<close>. The last line \<open>return route || "/"\<close> is kept as written.
\<close>

definition stripSpecialFile :: "string \<Rightarrow> string" where
  "stripSpecialFile route =
     (if endsWith route ''/page'' then dropEnd 5 route
      else if endsWith route ''/layout'' then dropEnd 7 route
      else if endsWith route ''/loading'' then dropEnd 8 route
      else if endsWith route ''/error'' then dropEnd 6 route
      else if endsWith route ''/not-found'' then dropEnd 10 route
      else route)"

definition convertNextJSAppPathToRoute :: "string \<Rightarrow> string option" where
  "convertNextJSAppPathToRoute filePath =
     (let route = removeExtension filePath;
          route = stripSpecialFile route;
          route = replaceDynamicSegments route;
          route = replaceCatchAllSegments route;
          route = (if route = ''index'' then ''/''
                   else if startsWith route ''/'' then route
                   else ''/'' @ route)
      in Some (if truthy route then route else ''/''))"

definition convertNextJSPagesPathToRoute :: "string \<Rightarrow> string option" where
  "convertNextJSPagesPathToRoute filePath =
     (let route = removeExtension filePath
      in if route = ''index'' then Some ''/''
         else let route = replaceDynamicSegments route;
                  route = replaceCatchAllSegments route
              in Some (''/'' @ route))"

section \<open>Data model\<close>

text \<open>
  \<open>RouteInfo\<close> is recursive through \<open>children\<close>, so it is a datatype with one selector
  per field; an optional field is an \<open>option\<close>. \<open>ImportedComponent name path fullPath\<close>
  is the nested object of the same name.
\<close>

datatype ImportedComponent = ImportedComponent string string "string option"

datatype RouteInfo = RouteInfo
  (path: string)
  (component: "string option")
  (children: "RouteInfo list option")
  (dynamic: "bool option")
  (catchAll: "bool option")
  (resolvedComponentPath: "string option")
  (importedComponent: "ImportedComponent option")

datatype FrameworkName = nextjs | vite | react_router_dom | unknown

record FrameworkInfo =
  name :: FrameworkName
  version :: "string option"

record ExtractionResult =
  framework :: FrameworkInfo
  routes :: "RouteInfo list"
  errors :: "string list"

text \<open>The part of \<open>package.json\<close> that is read: two string-to-string tables.\<close>

record PackageJson =
  dependencies :: "string \<rightharpoonup> string"
  devDependencies :: "string \<rightharpoonup> string"

section \<open>Syntax trees\<close>

text \<open>
  The nodes of the parser's tree that the extractor inspects, one constructor per node
  type, with the fields it reads. \<open>JSXElement name attributes children\<close> holds the name
  and the attributes of its opening element; \<open>ImportDeclaration specifiers source\<close> holds
  the value of its source literal; an import specifier holds its local binding;
  \<open>ArrayExpression\<close> has holes (\<open>None\<close>); every other node type is \<open>OtherNode\<close> with
  its sub-nodes in visiting order.
\<close>

datatype Node =
    StringLiteral string
  | Identifier string
  | JSXIdentifier string
  | JSXExpressionContainer Node
  | JSXAttribute Node "Node option"
  | JSXElement Node "Node list" "Node list"
  | ArrayExpression "Node option list"
  | ObjectProperty Node Node
  | ObjectExpression "Node list"
  | CallExpression Node "Node list"
  | ImportDefaultSpecifier Node
  | ImportSpecifier Node
  | ImportDeclaration "Node list" string
  | OtherNode "Node list"

section \<open>The environment\<close>

text \<open>
  What the extractor reads from outside: the file system (\<open>fs-extra\<close>), the file lister
  (\<open>glob pattern cwd ignore\<close>, giving absolute paths), the parser, and the functions of
  the platform's \<open>path\<close> module. An operation that can throw returns \<open>Inl message\<close>.
  \<open>pathExists\<close> never throws. \<open>readJson\<close> stands for reading the manifest and
  for the manifest being an object whose two sections can be spread.
\<close>

record Env =
  pathExists :: "string \<Rightarrow> bool"
  readJson :: "string \<Rightarrow> string + PackageJson"
  readFile :: "string \<Rightarrow> string + string"
  glob :: "string \<Rightarrow> string \<Rightarrow> string list \<Rightarrow> string + string list"
  parse :: "string \<Rightarrow> string + Node"
  path_join :: "string list \<Rightarrow> string"
  path_relative :: "string \<Rightarrow> string \<Rightarrow> string"
  path_resolve :: "string list \<Rightarrow> string"
  path_dirname :: "string \<Rightarrow> string"
  path_extname :: "string \<Rightarrow> string"

section \<open>Framework detection\<close>

definition truthyEntry :: "string option \<Rightarrow> bool" where
  "truthyEntry v = (case v of None \<Rightarrow> False | Some s \<Rightarrow> truthy s)"

text \<open>
  The manifest block of \<open>detectFramework\<close>: \<open>Inr None\<close> when it falls through to the
  configuration-file checks, \<open>Inl\<close> when reading the manifest throws.
\<close>

definition detectFromManifest :: "Env \<Rightarrow> string \<Rightarrow> string + FrameworkInfo option" where
  "detectFromManifest env projectPath =
     (let packageJsonPath = path_join env [projectPath, ''package.json'']
      in if pathExists env packageJsonPath then
           (case readJson env packageJsonPath of
              Inl message \<Rightarrow> Inl message
            | Inr packageJson \<Rightarrow>
                (let deps = dependencies packageJson ++ devDependencies packageJson
                 in if truthyEntry (deps ''next'')
                    then Inr (Some \<lparr>name = nextjs, version = deps ''next''\<rparr>)
                    else if truthyEntry (deps ''vite'')
                    then Inr (Some \<lparr>name = vite, version = deps ''vite''\<rparr>)
                    else if truthyEntry (deps ''react-router-dom'')
                    then Inr (Some \<lparr>name = react_router_dom,
                                      version = deps ''react-router-dom''\<rparr>)
                    else Inr None))
         else Inr None)"

definition detectFromConfigFiles :: "Env \<Rightarrow> string \<Rightarrow> FrameworkInfo" where
  "detectFromConfigFiles env projectPath =
     (if pathExists env (path_join env [projectPath, ''next.config.js''])
         \<or> pathExists env (path_join env [projectPath, ''next.config.ts''])
      then \<lparr>name = nextjs, version = None\<rparr>
      else if pathExists env (path_join env [projectPath, ''vite.config.js''])
         \<or> pathExists env (path_join env [projectPath, ''vite.config.ts''])
      then \<lparr>name = vite, version = None\<rparr>
      else \<lparr>name = unknown, version = None\<rparr>)"

definition detectFramework :: "Env \<Rightarrow> string \<Rightarrow> string + FrameworkInfo" where
  "detectFramework env projectPath =
     (case detectFromManifest env projectPath of
        Inl message \<Rightarrow> Inl message
      | Inr (Some fw) \<Rightarrow> Inr fw
      | Inr None \<Rightarrow> Inr (detectFromConfigFiles env projectPath))"

section \<open>Convention-based extraction\<close>

definition conventionRoute :: "string \<Rightarrow> string \<Rightarrow> string \<Rightarrow> RouteInfo" where
  "conventionRoute routePath relativePath resolved =
     RouteInfo routePath (Some relativePath) None
       (Some (includesStr routePath ''['' \<or> includesStr routePath ''...''))
       (Some (includesStr routePath ''...''))
       (Some resolved) None"

definition appRouteOfFile :: "Env \<Rightarrow> string \<Rightarrow> string \<Rightarrow> string \<Rightarrow> RouteInfo option" where
  "appRouteOfFile env appDir projectPath file =
     (let relativePath = path_relative env appDir file
      in case convertNextJSAppPathToRoute relativePath of
           None \<Rightarrow> None
         | Some routePath \<Rightarrow>
             if truthy routePath
             then Some (conventionRoute routePath relativePath (path_relative env projectPath file))
             else None)"

definition extractNextJSAppRoutes :: "Env \<Rightarrow> string \<Rightarrow> string \<Rightarrow> RouteInfo list" where
  "extractNextJSAppRoutes env appDir projectPath =
     (case glob env ''**/*.{tsx,ts,jsx,js}'' appDir [] of
        Inl message \<Rightarrow> []
      | Inr files \<Rightarrow> List.map_filter (appRouteOfFile env appDir projectPath) files)"

definition pagesRouteOfFile :: "Env \<Rightarrow> string \<Rightarrow> string \<Rightarrow> string \<Rightarrow> RouteInfo option" where
  "pagesRouteOfFile env pagesDir projectPath file =
     (let relativePath = path_relative env pagesDir file
      in case convertNextJSPagesPathToRoute relativePath of
           None \<Rightarrow> None
         | Some routePath \<Rightarrow>
             if truthy routePath
             then Some (conventionRoute routePath relativePath (path_relative env projectPath file))
             else None)"

definition extractNextJSPagesRoutes :: "Env \<Rightarrow> string \<Rightarrow> string \<Rightarrow> RouteInfo list" where
  "extractNextJSPagesRoutes env pagesDir projectPath =
     (case glob env ''**/*.{tsx,ts,jsx,js}'' pagesDir [] of
        Inl message \<Rightarrow> []
      | Inr files \<Rightarrow> List.map_filter (pagesRouteOfFile env pagesDir projectPath) files)"

definition extractNextJSRoutes :: "Env \<Rightarrow> string \<Rightarrow> RouteInfo list" where
  "extractNextJSRoutes env projectPath =
     (let pagesDir = path_join env [projectPath, ''pages''];
          appDir = path_join env [projectPath, ''app'']
      in (if pathExists env appDir then extractNextJSAppRoutes env appDir projectPath else [])
         @ (if pathExists env pagesDir then extractNextJSPagesRoutes env pagesDir projectPath
            else []))"

section \<open>Declaration-based extraction\<close>

definition getRelativePath :: "Env \<Rightarrow> string \<Rightarrow> string \<Rightarrow> string" where
  "getRelativePath env filePath projectPath = path_relative env projectPath filePath"

definition resolveImportPath :: "Env \<Rightarrow> string \<Rightarrow> string \<Rightarrow> string \<Rightarrow> string" where
  "resolveImportPath env importPath currentFile projectPath =
     (if startsWith importPath ''.'' then
        (let currentDir = path_dirname env currentFile;
             resolvedPath = path_resolve env [currentDir, importPath]
         in if \<not> truthy (path_extname env importPath) then
              (case find (\<lambda>ext. pathExists env (resolvedPath @ ext))
                         [''.tsx'', ''.ts'', ''.jsx'', ''.js''] of
                 Some ext \<Rightarrow> getRelativePath env (resolvedPath @ ext) projectPath
               | None \<Rightarrow> getRelativePath env (resolvedPath @ ''.tsx'') projectPath)
            else getRelativePath env resolvedPath projectPath)
      else if startsWith importPath ''/'' \<or> startsWith importPath ''src/'' then
        getRelativePath env (path_resolve env [projectPath, importPath]) projectPath
      else importPath)"

text \<open>The three groups of assignments to \<open>routeInfo\<close>.\<close>

fun setPath :: "string \<Rightarrow> RouteInfo \<Rightarrow> RouteInfo" where
  "setPath v (RouteInfo p c ch d ca rp ic) =
     RouteInfo v c ch (Some (includesStr v '':'')) (Some (includesStr v ''*'')) rp ic"

fun setImportedComponent :: "string \<Rightarrow> string \<Rightarrow> string \<Rightarrow> RouteInfo \<Rightarrow> RouteInfo" where
  "setImportedComponent componentName importPath fullPath (RouteInfo p c ch d ca rp ic) =
     RouteInfo p c ch d ca (Some fullPath)
       (Some (ImportedComponent componentName importPath (Some fullPath)))"

fun setChildren :: "RouteInfo list \<Rightarrow> RouteInfo \<Rightarrow> RouteInfo" where
  "setChildren rs (RouteInfo p c ch d ca rp ic) = RouteInfo p c (Some rs) d ca rp ic"

text \<open>
  The block that the source repeats for a \<open>component\<close> and for an \<open>element\<close>: look the
  identifier up in the import table and, when the specifier is a non-empty string,
  resolve it and record it.
\<close>

definition trackImport ::
  "Env \<Rightarrow> string \<Rightarrow> string \<Rightarrow> (string \<rightharpoonup> string) \<Rightarrow> string \<Rightarrow> RouteInfo \<Rightarrow> RouteInfo" where
  "trackImport env filePath projectPath imports componentName routeInfo =
     (case imports componentName of
        None \<Rightarrow> routeInfo
      | Some importPath \<Rightarrow>
          if truthy importPath
          then setImportedComponent componentName importPath
                 (resolveImportPath env importPath filePath projectPath) routeInfo
          else routeInfo)"

definition newRouteInfo :: "Env \<Rightarrow> string \<Rightarrow> string \<Rightarrow> RouteInfo" where
  "newRouteInfo env filePath projectPath =
     RouteInfo ''/'' (Some (getRelativePath env filePath projectPath)) (Some [])
       None None None None"

definition jsxAttributeStep ::
  "Env \<Rightarrow> string \<Rightarrow> string \<Rightarrow> (string \<rightharpoonup> string) \<Rightarrow> RouteInfo \<Rightarrow> Node \<Rightarrow> RouteInfo" where
  "jsxAttributeStep env filePath projectPath imports routeInfo attr =
     (case attr of
        JSXAttribute (JSXIdentifier attrName) attrValue \<Rightarrow>
          (case attrValue of
             Some (StringLiteral v) \<Rightarrow>
               if attrName = ''path'' then setPath v routeInfo else routeInfo
           | Some (JSXExpressionContainer expr) \<Rightarrow>
               if attrName = ''component'' then
                 (case expr of
                    Identifier componentName \<Rightarrow>
                      trackImport env filePath projectPath imports componentName routeInfo
                  | _ \<Rightarrow> routeInfo)
               else if attrName = ''element'' then
                 (case expr of
                    JSXElement (JSXIdentifier componentName) _ _ \<Rightarrow>
                      trackImport env filePath projectPath imports componentName routeInfo
                  | _ \<Rightarrow> routeInfo)
               else routeInfo
           | _ \<Rightarrow> routeInfo)
      | _ \<Rightarrow> routeInfo)"

text \<open>
  \<open>extractRouteFromJSXElement\<close>; its parameter has type \<open>JSXElement\<close> in the source, so
  any other node gives \<open>None\<close> here.
\<close>

definition extractRouteFromJSXElement ::
  "Env \<Rightarrow> Node \<Rightarrow> string \<Rightarrow> string \<Rightarrow> (string \<rightharpoonup> string) \<Rightarrow> RouteInfo option" where
  "extractRouteFromJSXElement env node filePath projectPath imports =
     (case node of
        JSXElement elementName attributes elementChildren \<Rightarrow>
          Some (foldl (jsxAttributeStep env filePath projectPath imports)
                      (newRouteInfo env filePath projectPath) attributes)
      | _ \<Rightarrow> None)"

text \<open>The elements of a \<open>children\<close> array that are object literals.\<close>

definition objectElements :: "Node option list \<Rightarrow> Node list" where
  "objectElements elements =
     List.map_filter (\<lambda>element. case element of
                         Some (ObjectExpression props) \<Rightarrow> Some (ObjectExpression props)
                       | _ \<Rightarrow> None) elements"

lemma objectElements_size:
  "x \<in> set (objectElements elements) \<Longrightarrow> size x < Suc (size_list (size_option size) elements)"
proof (induction elements)
  case Nil
  then show ?case by (simp add: objectElements_def map_filter_simps)
next
  case (Cons e es)
  then show ?case
    by (auto simp: objectElements_def map_filter_simps split: option.splits Node.splits)
qed

lemma map_filter_cong [fundef_cong]:
  "xs = ys \<Longrightarrow> (\<And>x. x \<in> set ys \<Longrightarrow> f x = g x) \<Longrightarrow> List.map_filter f xs = List.map_filter g ys"
  by (induction ys arbitrary: xs) (auto simp: map_filter_simps split: option.splits)

text \<open>
  \<open>extractRouteFromObjectExpression\<close>, recursive through \<open>children\<close>. Its parameter has
  type \<open>ObjectExpression\<close> in the source, so any other node gives \<open>None\<close> here.
\<close>

function (sequential) extractRouteFromObjectExpression ::
  "Env \<Rightarrow> Node \<Rightarrow> string \<Rightarrow> string \<Rightarrow> (string \<rightharpoonup> string) \<Rightarrow> RouteInfo option" where
  "extractRouteFromObjectExpression env (ObjectExpression properties) filePath projectPath imports =
     Some (foldl (\<lambda>routeInfo prop.
             case prop of
               ObjectProperty (Identifier key) propValue \<Rightarrow>
                 (case propValue of
                    StringLiteral v \<Rightarrow>
                      if key = ''path'' then setPath v routeInfo else routeInfo
                  | Identifier componentName \<Rightarrow>
                      if key = ''component''
                      then trackImport env filePath projectPath imports componentName routeInfo
                      else routeInfo
                  | JSXElement elementName attributes elementChildren \<Rightarrow>
                      if key = ''element'' then
                        (case elementName of
                           JSXIdentifier componentName \<Rightarrow>
                             trackImport env filePath projectPath imports componentName routeInfo
                         | _ \<Rightarrow> routeInfo)
                      else routeInfo
                  | ArrayExpression elements \<Rightarrow>
                      if key = ''children'' then
                        setChildren
                          (List.map_filter
                             (\<lambda>element. extractRouteFromObjectExpression env element
                                           filePath projectPath imports)
                             (objectElements elements))
                          routeInfo
                      else routeInfo
                  | _ \<Rightarrow> routeInfo)
             | _ \<Rightarrow> routeInfo)
           (newRouteInfo env filePath projectPath) properties)"
| "extractRouteFromObjectExpression env _ filePath projectPath imports = None"
  by pat_completeness auto
termination
proof (relation "measure (\<lambda>(env, node, filePath, projectPath, imports). size node)")
  show "wf (measure (\<lambda>(env, node, filePath, projectPath, imports). size node))" by simp
next
  fix env :: Env and filePath projectPath :: string
    and imps :: "string \<rightharpoonup> string" and props :: "Node list"
    and p k v :: Node and s :: string and es :: "Node option list" and e :: Node
  assume p: "p \<in> set props" "p = ObjectProperty k v"
    and v: "v = ArrayExpression es"
    and e: "e \<in> set (objectElements es)"
  have "size e < Suc (size_list (size_option size) es)"
    using e by (rule objectElements_size)
  also have "\<dots> \<le> size p" using p v by simp
  also have "size p \<le> size_list size props"
    using p(1) by (simp add: size_list_estimation')
  finally show "((env, e, filePath, projectPath, imps),
                 (env, ObjectExpression props, filePath, projectPath, imps))
        \<in> measure (\<lambda>(env, node, filePath, projectPath, imports). size node)"
    by simp
qed


definition extractRoutesFromCreateBrowserRouter ::
  "Env \<Rightarrow> Node \<Rightarrow> string \<Rightarrow> string \<Rightarrow> (string \<rightharpoonup> string) \<Rightarrow> RouteInfo list" where
  "extractRoutesFromCreateBrowserRouter env node filePath projectPath imports =
     (case node of
        CallExpression callee (ArrayExpression elements # arguments) \<Rightarrow>
          List.map_filter
            (\<lambda>element. extractRouteFromObjectExpression env element filePath projectPath imports)
            (objectElements elements)
      | _ \<Rightarrow> [])"

subsection \<open>Tree traversal\<close>

text \<open>
  \<open>traverse\<close> enters every node of the tree, a node before its sub-nodes and the
  sub-nodes in their order; \<open>allNodes\<close> lists the nodes in the order they are entered.
  The root that the parser gives is a file node (an \<open>OtherNode\<close>), which no visitor
  matches.
\<close>

fun allNodes :: "Node \<Rightarrow> Node list" where
  "allNodes (StringLiteral v) = [StringLiteral v]"
| "allNodes (Identifier n) = [Identifier n]"
| "allNodes (JSXIdentifier n) = [JSXIdentifier n]"
| "allNodes (JSXExpressionContainer e) = JSXExpressionContainer e # allNodes e"
| "allNodes (JSXAttribute n v) =
     JSXAttribute n v # allNodes n @ (case v of None \<Rightarrow> [] | Some x \<Rightarrow> allNodes x)"
| "allNodes (JSXElement n attrs cs) =
     JSXElement n attrs cs # allNodes n @ concat (map allNodes attrs) @ concat (map allNodes cs)"
| "allNodes (ArrayExpression es) =
     ArrayExpression es # concat (map (\<lambda>e. case e of None \<Rightarrow> [] | Some x \<Rightarrow> allNodes x) es)"
| "allNodes (ObjectProperty k v) = ObjectProperty k v # allNodes k @ allNodes v"
| "allNodes (ObjectExpression props) = ObjectExpression props # concat (map allNodes props)"
| "allNodes (CallExpression callee args) =
     CallExpression callee args # allNodes callee @ concat (map allNodes args)"
| "allNodes (ImportDefaultSpecifier l) = ImportDefaultSpecifier l # allNodes l"
| "allNodes (ImportSpecifier l) = ImportSpecifier l # allNodes l"
| "allNodes (ImportDeclaration specifiers source) =
     ImportDeclaration specifiers source # concat (map allNodes specifiers)"
| "allNodes (OtherNode ns) = OtherNode ns # concat (map allNodes ns)"

text \<open>First pass: the import table, keyed by local name; a later binding overwrites.\<close>

definition importSpecifierStep :: "string \<Rightarrow> (string \<rightharpoonup> string) \<Rightarrow> Node \<Rightarrow> (string \<rightharpoonup> string)" where
  "importSpecifierStep source imports specifier =
     (case specifier of
        ImportDefaultSpecifier (Identifier componentName) \<Rightarrow> imports(componentName \<mapsto> source)
      | ImportSpecifier (Identifier localName) \<Rightarrow> imports(localName \<mapsto> source)
      | _ \<Rightarrow> imports)"

definition importDeclarationStep :: "(string \<rightharpoonup> string) \<Rightarrow> Node \<Rightarrow> (string \<rightharpoonup> string)" where
  "importDeclarationStep imports node =
     (case node of
        ImportDeclaration specifiers source \<Rightarrow> foldl (importSpecifierStep source) imports specifiers
      | _ \<Rightarrow> imports)"

definition collectImports :: "Node \<Rightarrow> (string \<rightharpoonup> string)" where
  "collectImports ast = foldl importDeclarationStep Map.empty (allNodes ast)"

text \<open>Second pass: the two visitors' tests.\<close>

definition isRouteElement :: "Node \<Rightarrow> bool" where
  "isRouteElement node =
     (case node of
        JSXElement (JSXIdentifier n) attrs cs \<Rightarrow> n = ''Route''
      | _ \<Rightarrow> False)"

definition isCreateBrowserRouterCall :: "Node \<Rightarrow> bool" where
  "isCreateBrowserRouterCall node =
     (case node of
        CallExpression (Identifier n) args \<Rightarrow> n = ''createBrowserRouter''
      | _ \<Rightarrow> False)"

text \<open>
  \<open>extractReactRouterRoutesFromFile\<close>: whatever is thrown inside its \<open>try\<close> leaves
  \<open>routes\<close> empty, since the routes are pushed last; \<open>parse\<close> giving \<open>Inl\<close> stands
  for that. The markup results come first, then the results of the router calls.
\<close>

definition extractReactRouterRoutesFromFile :: "Env \<Rightarrow> string \<Rightarrow> string \<Rightarrow> string \<Rightarrow> RouteInfo list" where
  "extractReactRouterRoutesFromFile env filePath content projectPath =
     (case parse env content of
        Inl message \<Rightarrow> []
      | Inr ast \<Rightarrow>
          (let imports = collectImports ast;
               jsxResults = map (\<lambda>node. extractRouteFromJSXElement env node filePath projectPath imports)
                                (filter isRouteElement (allNodes ast));
               routerArrays = map (\<lambda>node. extractRoutesFromCreateBrowserRouter env node filePath
                                             projectPath imports)
                                  (filter isCreateBrowserRouterCall (allNodes ast))
           in List.map_filter (\<lambda>ri. ri) jsxResults @ concat routerArrays))"

subsection \<open>The two project scans\<close>

definition routerIgnore :: "string list" where
  "routerIgnore = [''**/node_modules/**'', ''**/dist/**'', ''**/build/**'']"

definition hasRouterSignal :: "string \<Rightarrow> bool" where
  "hasRouterSignal content =
     (includesStr content ''react-router-dom'' \<or> includesStr content ''BrowserRouter''
      \<or> includesStr content ''Routes'')"

text \<open>
  The loop of \<open>extractViteRoutes\<close> over the listed files; \<open>acc\<close> is the source's
  \<open>routes\<close> array as pushed so far.
  A failing \<open>readFile\<close> throws out of the loop into the function's \<open>catch\<close>, which
  returns the routes pushed so far.
\<close>

fun viteLoop :: "Env \<Rightarrow> string \<Rightarrow> RouteInfo list \<Rightarrow> string list \<Rightarrow> RouteInfo list" where
  "viteLoop env projectPath acc [] = acc"
| "viteLoop env projectPath acc (file # files) =
     (case readFile env file of
        Inl message \<Rightarrow> acc
      | Inr content \<Rightarrow>
          if hasRouterSignal content
          then viteLoop env projectPath
                 (acc @ extractReactRouterRoutesFromFile env file content projectPath) files
          else viteLoop env projectPath acc files)"

definition extractViteRoutes :: "Env \<Rightarrow> string \<Rightarrow> RouteInfo list" where
  "extractViteRoutes env projectPath =
     (case glob env ''**/*.{tsx,ts,jsx,js}'' projectPath routerIgnore of
        Inl message \<Rightarrow> []
      | Inr routerFiles \<Rightarrow> viteLoop env projectPath [] routerFiles)"

definition routeKey :: "RouteInfo \<Rightarrow> string" where
  "routeKey route =
     path route @ ''|'' @
       (case component route of
          None \<Rightarrow> ''no-component''
        | Some c \<Rightarrow> if truthy c then c else ''no-component'')"

text \<open>
  The inner loop of \<open>extractReactRouterRoutes\<close> over one file's routes; the state is
  the \<open>routes\<close> array (\<open>acc\<close>) and the set \<open>seenRoutes\<close>.
\<close>

fun addRoutes :: "RouteInfo list \<times> string set \<Rightarrow> RouteInfo list \<Rightarrow> RouteInfo list \<times> string set" where
  "addRoutes (acc, seenRoutes) [] = (acc, seenRoutes)"
| "addRoutes (acc, seenRoutes) (route # fileRoutes) =
     (if routeKey route \<notin> seenRoutes
      then addRoutes (acc @ [route], insert (routeKey route) seenRoutes) fileRoutes
      else addRoutes (acc, seenRoutes) fileRoutes)"

fun reactRouterLoop ::
  "Env \<Rightarrow> string \<Rightarrow> RouteInfo list \<times> string set \<Rightarrow> string list \<Rightarrow> RouteInfo list \<times> string set" where
  "reactRouterLoop env projectPath st [] = st"
| "reactRouterLoop env projectPath st (file # files) =
     (case readFile env file of
        Inl message \<Rightarrow> st
      | Inr content \<Rightarrow>
          if hasRouterSignal content
          then reactRouterLoop env projectPath
                 (addRoutes st (extractReactRouterRoutesFromFile env file content projectPath))
                 files
          else reactRouterLoop env projectPath st files)"

definition extractReactRouterRoutes :: "Env \<Rightarrow> string \<Rightarrow> RouteInfo list" where
  "extractReactRouterRoutes env projectPath =
     (case glob env ''**/*.{tsx,ts,jsx,js}'' projectPath routerIgnore of
        Inl message \<Rightarrow> []
      | Inr routerFiles \<Rightarrow> fst (reactRouterLoop env projectPath ([], {}) routerFiles))"

section \<open>The entry point\<close>

text \<open>
  \<open>extractSiteRoutes\<close>. Only \<open>detectFramework\<close> can throw inside its \<open>try\<close> (the
  three strategies catch their own failures); the \<open>catch\<close> appends the message to the
  result as it stands, with the framework still unknown.
\<close>

definition extractSiteRoutes :: "Env \<Rightarrow> string \<Rightarrow> ExtractionResult" where
  "extractSiteRoutes env projectPath =
     (let result = \<lparr>framework = \<lparr>name = unknown, version = None\<rparr>, routes = [], errors = []\<rparr>
      in if \<not> pathExists env projectPath
         then result\<lparr>errors := errors result @ [''Project path does not exist: '' @ projectPath]\<rparr>
         else
           (case detectFramework env projectPath of
              Inl message \<Rightarrow>
                result\<lparr>errors := errors result @ [''Error during extraction: '' @ message]\<rparr>
            | Inr fw \<Rightarrow>
                (let result = result\<lparr>framework := fw\<rparr>
                 in case name fw of
                      nextjs \<Rightarrow> result\<lparr>routes := extractNextJSRoutes env projectPath\<rparr>
                    | vite \<Rightarrow> result\<lparr>routes := extractViteRoutes env projectPath\<rparr>
                    | react_router_dom \<Rightarrow>
                        result\<lparr>routes := extractReactRouterRoutes env projectPath\<rparr>
                    | unknown \<Rightarrow>
                        result\<lparr>errors := errors result
                                           @ [''Unsupported or unknown framework'']\<rparr>)))"

section \<open>A POSIX instance of the path functions\<close>

text \<open>
  The extractor is parametric in the \<open>path\<close> module. To run it on concrete projects the
  POSIX flavour of the five functions is written out here, on path segments: \<open>normalize\<close>
  drops empty and \<open>.\<close> segments and resolves \<open>..\<close>; \<open>resolve\<close> goes from the right to
  the first absolute path, falling back on the working directory \<open>cwd\<close> (absolute);
  \<open>relative\<close> resolves both paths, drops their common leading segments and climbs with
  \<open>..\<close> out of what is left of the first.
\<close>

fun splitOn :: "char \<Rightarrow> string \<Rightarrow> string list" where
  "splitOn d [] = [[]]"
| "splitOn d (c # cs) =
     (if c = d then [] # splitOn d cs
      else (case splitOn d cs of [] \<Rightarrow> [[c]] | x # xs \<Rightarrow> (c # x) # xs))"

fun joinSegments :: "string list \<Rightarrow> string" where
  "joinSegments [] = []"
| "joinSegments [x] = x"
| "joinSegments (x # y # ys) = x @ ''/'' @ joinSegments (y # ys)"

definition normalizeStep :: "bool \<Rightarrow> string list \<Rightarrow> string \<Rightarrow> string list" where
  "normalizeStep allowAboveRoot res seg =
     (if seg = [] \<or> seg = ''.'' then res
      else if seg = ''..'' then
        (if res \<noteq> [] \<and> last res \<noteq> ''..'' then butlast res
         else if allowAboveRoot then res @ [''..'']
         else res)
      else res @ [seg])"

definition normalizeSegments :: "bool \<Rightarrow> string \<Rightarrow> string list" where
  "normalizeSegments allowAboveRoot p = foldl (normalizeStep allowAboveRoot) [] (splitOn CHR ''/'' p)"

definition posix_normalize :: "string \<Rightarrow> string" where
  "posix_normalize p =
     (if p = [] then ''.''
      else
        (let isAbsolute = startsWith p ''/'';
             trailingSeparator = endsWith p ''/'';
             q = joinSegments (normalizeSegments (\<not> isAbsolute) p)
         in if q = [] then (if isAbsolute then ''/'' else if trailingSeparator then ''./'' else ''.'')
            else (if isAbsolute then ''/'' else []) @ q @ (if trailingSeparator then ''/'' else [])))"

definition posix_join :: "string list \<Rightarrow> string" where
  "posix_join paths =
     (let parts = filter (\<lambda>a. a \<noteq> []) paths
      in if parts = [] then ''.'' else posix_normalize (joinSegments parts))"

text \<open>The path that \<open>resolve\<close> normalises, given the arguments from the right.\<close>

fun resolveFromRight :: "string \<Rightarrow> string list \<Rightarrow> string" where
  "resolveFromRight cwd [] = cwd"
| "resolveFromRight cwd (p # ps) =
     (if p = [] then resolveFromRight cwd ps
      else if startsWith p ''/'' then p
      else resolveFromRight cwd ps @ ''/'' @ p)"

definition resolvedSegments :: "string \<Rightarrow> string list \<Rightarrow> string list" where
  "resolvedSegments cwd paths = normalizeSegments False (resolveFromRight cwd (rev paths))"

definition posix_resolve :: "string \<Rightarrow> string list \<Rightarrow> string" where
  "posix_resolve cwd paths = ''/'' @ joinSegments (resolvedSegments cwd paths)"

fun dropCommon :: "string list \<Rightarrow> string list \<Rightarrow> string list \<times> string list" where
  "dropCommon (x # xs) (y # ys) = (if x = y then dropCommon xs ys else (x # xs, y # ys))"
| "dropCommon xs ys = (xs, ys)"

definition posix_relative :: "string \<Rightarrow> string \<Rightarrow> string \<Rightarrow> string" where
  "posix_relative cwd from to =
     (if from = to then []
      else
        (let (up, down) = dropCommon (resolvedSegments cwd [from]) (resolvedSegments cwd [to])
         in joinSegments (replicate (length up) ''..'' @ down)))"

definition posix_dirname :: "string \<Rightarrow> string" where
  "posix_dirname p =
     (if p = [] then ''.''
      else
        (let r = dropWhile (\<lambda>c. c \<noteq> CHR ''/'') (dropWhile (\<lambda>c. c = CHR ''/'') (rev p))
         in if length r < 2 then (if startsWith p ''/'' then ''/'' else ''.'')
            else if startsWith p ''/'' \<and> length r = 2 then ''//''
            else take (length r - 1) p))"

text \<open>
  \<open>extname\<close> works on the last segment, read from its end: the extension runs from the
  last dot, and there is none when the segment has no dot, starts with its only dot, or
  is \<open>..\<close>.
\<close>

definition posix_extname :: "string \<Rightarrow> string" where
  "posix_extname p =
     (let revBase = takeWhile (\<lambda>c. c \<noteq> CHR ''/'') (dropWhile (\<lambda>c. c = CHR ''/'') (rev p));
          revExt = takeWhile (\<lambda>c. c \<noteq> CHR ''.'') revBase;
          revStem = dropWhile (\<lambda>c. c \<noteq> CHR ''.'') revBase
      in if revStem = [] \<or> tl revStem = [] \<or> revBase = ''..'' then []
         else ''.'' @ rev revExt)"

text \<open>
  An environment over a finite set of existing paths, with the POSIX path functions and
  working directory \<open>/\<close>.
\<close>

definition posixEnv ::
  "string list \<Rightarrow> (string \<Rightarrow> string + PackageJson) \<Rightarrow> (string \<Rightarrow> string + string)
     \<Rightarrow> (string \<Rightarrow> string \<Rightarrow> string list \<Rightarrow> string + string list) \<Rightarrow> (string \<Rightarrow> string + Node) \<Rightarrow> Env" where
  "posixEnv existing rj rf gl ps =
     \<lparr>pathExists = (\<lambda>p. List.member existing p), readJson = rj, readFile = rf, glob = gl, parse = ps,
      path_join = posix_join, path_relative = posix_relative ''/'',
      path_resolve = posix_resolve ''/'', path_dirname = posix_dirname,
      path_extname = posix_extname\<rparr>"

section \<open>Concrete projects\<close>

text \<open>
  The project of the repository's test suite: a manifest with \<open>next\<close> at \<open>14.0.0\<close>, three
  files under \<open>pages\<close> and three under \<open>app\<close>; \<open>pagesProject\<close> is the same without
  the \<open>app\<close> directory.
\<close>

definition nextManifest :: "string \<Rightarrow> string + PackageJson" where
  "nextManifest f =
     (if f = ''/proj/package.json''
      then Inr \<lparr>dependencies = [''next'' \<mapsto> ''14.0.0''], devDependencies = Map.empty\<rparr>
      else Inl ''ENOENT'')"

definition pagesFiles :: "string list" where
  "pagesFiles = [''/proj/pages/index.tsx'', ''/proj/pages/users/[id].tsx'',
                 ''/proj/pages/blog/[...slug].tsx'']"

definition appFiles :: "string list" where
  "appFiles = [''/proj/app/page.tsx'', ''/proj/app/dashboard/page.tsx'',
               ''/proj/app/users/[id]/page.tsx'']"

definition pagesProject :: Env where
  "pagesProject =
     posixEnv ([''/proj'', ''/proj/package.json'', ''/proj/pages''] @ pagesFiles)
       nextManifest (\<lambda>f. Inl ''ENOENT'')
       (\<lambda>pattern dir ignore. if dir = ''/proj/pages'' then Inr pagesFiles else Inr [])
       (\<lambda>content. Inl ''SyntaxError'')"

definition testProject :: Env where
  "testProject =
     posixEnv ([''/proj'', ''/proj/package.json'', ''/proj/pages'', ''/proj/app'']
               @ pagesFiles @ appFiles)
       nextManifest (\<lambda>f. Inl ''ENOENT'')
       (\<lambda>pattern dir ignore. if dir = ''/proj/pages'' then Inr pagesFiles
                             else if dir = ''/proj/app'' then Inr appFiles else Inr [])
       (\<lambda>content. Inl ''SyntaxError'')"

text \<open>
  A project of the declaration framework with one source file. Its tree has three
  \<open>Route\<close> elements (one imported from a relative module, one catch-all whose element
  comes from the routing package, one without a \<open>path\<close>) and a \<open>createBrowserRouter\<close>
  call with a nested descriptor and a descriptor without a \<open>path\<close>. The text of a file
  is abbreviated to the signal token it contains.
\<close>

definition routeElement :: "Node list \<Rightarrow> Node" where
  "routeElement attrs = JSXElement (JSXIdentifier ''Route'') attrs []"

definition pathAttribute :: "string \<Rightarrow> Node" where
  "pathAttribute v = JSXAttribute (JSXIdentifier ''path'') (Some (StringLiteral v))"

definition elementAttribute :: "string \<Rightarrow> Node" where
  "elementAttribute n =
     JSXAttribute (JSXIdentifier ''element'')
       (Some (JSXExpressionContainer (JSXElement (JSXIdentifier n) [] [])))"

definition appAst :: Node where
  "appAst = OtherNode
     [ImportDeclaration [ImportSpecifier (Identifier ''Routes''),
                         ImportSpecifier (Identifier ''Route''),
                         ImportSpecifier (Identifier ''Outlet'')] ''react-router-dom'',
      ImportDeclaration [ImportDefaultSpecifier (Identifier ''Home'')] ''./pages/Home'',
      OtherNode
        [JSXElement (JSXIdentifier ''Routes'') []
           [routeElement [JSXAttribute (JSXIdentifier ''exact'') None, pathAttribute ''/'',
                          JSXAttribute (JSXIdentifier ''component'')
                            (Some (JSXExpressionContainer (Identifier ''Home'')))],
            routeElement [pathAttribute ''*'', elementAttribute ''Outlet''],
            routeElement [elementAttribute ''Home'']]],
      CallExpression (Identifier ''createBrowserRouter'')
        [ArrayExpression
           [Some (ObjectExpression
                    [ObjectProperty (Identifier ''path'') (StringLiteral ''/a''),
                     ObjectProperty (Identifier ''children'')
                       (ArrayExpression
                          [Some (ObjectExpression
                                   [ObjectProperty (Identifier ''path'') (StringLiteral ''/a/b'')])])]),
            Some (ObjectExpression
                    [ObjectProperty (Identifier ''element'')
                       (JSXElement (JSXIdentifier ''Home'') [] [])])]]]"

definition routerManifest :: "string \<Rightarrow> string + PackageJson" where
  "routerManifest f =
     (if f = ''/proj/package.json''
      then Inr \<lparr>dependencies = [''react-router-dom'' \<mapsto> ''6.4.0''], devDependencies = Map.empty\<rparr>
      else Inl ''ENOENT'')"

definition routerProject :: Env where
  "routerProject =
     posixEnv [''/proj'', ''/proj/package.json'', ''/proj/src/App.tsx'', ''/proj/src/pages/Home.jsx'']
       routerManifest
       (\<lambda>f. if f = ''/proj/src/App.tsx'' then Inr ''Routes'' else Inl ''ENOENT'')
       (\<lambda>pattern dir ignore. if dir = ''/proj'' then Inr [''/proj/src/App.tsx''] else Inr [])
       (\<lambda>content. if content = ''Routes'' then Inr appAst else Inl ''SyntaxError'')"

text \<open>
  A project without a manifest that has a configuration file of each of the two
  frameworks.
\<close>

definition bothConfigsProject :: Env where
  "bothConfigsProject =
     posixEnv [''/proj'', ''/proj/next.config.js'', ''/proj/vite.config.js'']
       (\<lambda>f. Inl ''ENOENT'') (\<lambda>f. Inl ''ENOENT'') (\<lambda>pattern dir ignore. Inr [])
       (\<lambda>content. Inl ''SyntaxError'')"

text \<open>
  A project with two source files, \<open>c.tsx\<close> declaring the path \<open>/a|b\<close> and \<open>b|c.tsx\<close>
  declaring the path \<open>/a\<close>.
\<close>

definition barProject :: Env where
  "barProject =
     posixEnv [''/proj'', ''/proj/c.tsx'', ''/proj/b|c.tsx'']
       (\<lambda>f. Inl ''ENOENT'')
       (\<lambda>f. if f = ''/proj/c.tsx'' then Inr ''Routes 1''
            else if f = ''/proj/b|c.tsx'' then Inr ''Routes 2'' else Inl ''ENOENT'')
       (\<lambda>pattern dir ignore. if dir = ''/proj'' then Inr [''/proj/c.tsx'', ''/proj/b|c.tsx'']
                             else Inr [])
       (\<lambda>content. if content = ''Routes 1'' then Inr (OtherNode [routeElement [pathAttribute ''/a|b'']])
                  else if content = ''Routes 2'' then Inr (OtherNode [routeElement [pathAttribute ''/a'']])
                  else Inl ''SyntaxError'')"



section \<open>Properties of route records\<close>


text \<open>On POSIX a path is absolute when it starts with a slash.\<close>

definition isAbsolute :: "string \<Rightarrow> bool" where
  "isAbsolute p = startsWith p ''/''"


text \<open>
  Removing later duplicates from a list, where two elements are duplicates when \<open>key\<close>
  gives the same value: the first of them stays, in its place.
\<close>

fun dropLaterDuplicates :: "('a \<Rightarrow> 'k) \<Rightarrow> 'a list \<Rightarrow> 'a list" where
  "dropLaterDuplicates key [] = []"
| "dropLaterDuplicates key (x # xs) =
     x # dropLaterDuplicates key (filter (\<lambda>y. key y \<noteq> key x) xs)"

definition pathAndComponent :: "RouteInfo \<Rightarrow> string \<times> string option" where
  "pathAndComponent r = (path r, component r)"



text \<open>The key of the deduplication, as a function of the pair of path and component.\<close>

definition keyOfPair :: "string \<times> string option \<Rightarrow> string" where
  "keyOfPair pc = fst pc @ ''|'' @ (case snd pc of None \<Rightarrow> ''no-component''
                                   | Some c \<Rightarrow> if truthy c then c else ''no-component'')"



text \<open>
  Where a resolved component path comes from: it is a value of \<open>relative\<close> from the
  project root, or it is an import specifier that starts neither with a dot nor with a
  slash nor with \<open>src/\<close>, stored as it was written in the import declaration.
\<close>

definition externalSpecifier :: "string \<Rightarrow> bool" where
  "externalSpecifier s =
     (\<not> startsWith s ''.'' \<and> \<not> startsWith s ''/'' \<and> \<not> startsWith s ''src/'')"



section \<open>Basic facts\<close>

lemma startsWith_append: "startsWith (p @ t) p"
  by (induction p) auto

lemma startsWith_iff: "startsWith s p \<longleftrightarrow> (\<exists>t. s = p @ t)"
proof (induction s p rule: startsWith.induct)
  case (1 s) show ?case by simp
next
  case (2 p ps) show ?case by simp
next
  case (3 c cs p ps) then show ?case by auto
qed

lemma includesStr_append: "includesStr (a @ p @ c) p"
proof (induction a)
  case Nil
  show ?case by (cases "p @ c") (auto simp: startsWith_append, metis startsWith_append)
next
  case (Cons x a)
  then show ?case by simp
qed






section \<open>The pages scenario\<close>

text \<open>
  Claim C1: on a project whose manifest declares \<open>next\<close> at \<open>14.0.0\<close> and whose
  \<open>pages\<close> directory holds \<open>index.tsx\<close>, \<open>users/[id].tsx\<close> and \<open>blog/[...slug].tsx\<close>,
  the result should name the framework nextjs with that version and contain the paths
  \<open>/\<close>, \<open>/users/:id\<close> (dynamic, not catch-all) and \<open>/blog/*\<close> (dynamic and catch-all).
  What \<open>extractSiteRoutes\<close> computes on that project is stated here: the framework is
  as expected, but \<open>/users/:id\<close> is not marked dynamic, and the third path is
  \<open>/blog/:...slug\<close>, so no record has the path \<open>/blog/*\<close>. The bracket replacement runs
  before the spread replacement and consumes the spread segment; the two flags are read
  off the converted path, in which no bracket is left.
\<close>

theorem pages_scenario_result:
  "framework (extractSiteRoutes pagesProject ''/proj'') = \<lparr>name = nextjs, version = Some ''14.0.0''\<rparr>
   \<and> map (\<lambda>r. (path r, dynamic r, catchAll r)) (routes (extractSiteRoutes pagesProject ''/proj''))
       = [(''/'', Some False, Some False),
          (''/users/:id'', Some False, Some False),
          (''/blog/:...slug'', Some True, Some True)]"
  by code_simp

section \<open>Special files of the app-style converter\<close>

text \<open>
  Claim C2: a file whose last segment is one of the five special names should give the
  route of its directory; \<open>app/page.tsx\<close> should give \<open>/\<close>, \<open>app/dashboard/page.tsx\<close>
  should give \<open>/dashboard\<close> and \<open>app/users/[id]/page.tsx\<close> should give \<open>/users/:id\<close>.
  The converter does so for the two nested files. For the file at the root of the app
  directory the relative path is \<open>page.tsx\<close>, which does not end in \<open>/page\<close>, so the
  name is not stripped and the route is \<open>/page\<close>; the fallback to \<open>/\<close> for an empty
  route is never reached.
\<close>

theorem app_special_files_result:
  "convertNextJSAppPathToRoute ''page.tsx'' = Some ''/page''
   \<and> convertNextJSAppPathToRoute ''dashboard/page.tsx'' = Some ''/dashboard''
   \<and> convertNextJSAppPathToRoute ''users/[id]/page.tsx'' = Some ''/users/:id''
   \<and> map (\<lambda>r. (path r, component r)) (extractNextJSAppRoutes testProject ''/proj/app'' ''/proj'')
       = [(''/page'', Some ''page.tsx''), (''/dashboard'', Some ''dashboard/page.tsx''),
          (''/users/:id'', Some ''users/[id]/page.tsx'')]"
  by code_simp

section \<open>Route paths of the app-style extraction\<close>

text \<open>Every route path of the app-style converter starts with a slash.\<close>

lemma app_route_starts_with_slash:
  "\<exists>r. convertNextJSAppPathToRoute filePath = Some r \<and> startsWith r ''/''"
  by (simp add: convertNextJSAppPathToRoute_def Let_def truthy_def)

text \<open>
  Claim C3: every record of the app-style extraction should have a path that starts with
  a slash, contains no bracket, and contains a star exactly when \<open>catchAll\<close> is true.
  For the file \<open>app/blog/[...slug]/page.tsx\<close> the extraction gives the path
  \<open>/blog/:...slug\<close> with \<open>catchAll\<close> true, and that path contains no star: the spread
  segment has been consumed by the bracket replacement, and \<open>catchAll\<close> tests the
  converted path for three dots.
\<close>

theorem app_catch_all_result:
  "extractNextJSAppRoutes
     (posixEnv [] (\<lambda>f. Inl ''ENOENT'') (\<lambda>f. Inl ''ENOENT'')
        (\<lambda>pattern dir ignore. Inr [''/proj/app/blog/[...slug]/page.tsx''])
        (\<lambda>content. Inl ''SyntaxError''))
     ''/proj/app'' ''/proj''
   = [RouteInfo ''/blog/:...slug'' (Some ''blog/[...slug]/page.tsx'') None (Some True) (Some True)
        (Some ''app/blog/[...slug]/page.tsx'') None]
   \<and> \<not> includesStr ''/blog/:...slug'' ''*''"
  by code_simp

section \<open>Catch-all and dynamic\<close>

text \<open>In a record of the two convention-based strategies, \<open>catchAll\<close> implies \<open>dynamic\<close>.\<close>

lemma conventionRoute_catchAll_dynamic:
  "catchAll (conventionRoute routePath relativePath resolved) = Some True \<Longrightarrow>
   dynamic (conventionRoute routePath relativePath resolved) = Some True"
  by (simp add: conventionRoute_def)

text \<open>
  Claim C4: in every record of a result, \<open>catchAll\<close> true should imply \<open>dynamic\<close> true.
  The declaration-based extractors set \<open>dynamic\<close> from a colon in the path and
  \<open>catchAll\<close> from a star, independently: on the project \<open>routerProject\<close>, whose source
  file declares a \<open>Route\<close> with the path \<open>*\<close>, the second record of the result has
  \<open>catchAll\<close> true and \<open>dynamic\<close> false.
\<close>

theorem star_route_result:
  "map (\<lambda>r. (path r, dynamic r, catchAll r)) (routes (extractSiteRoutes routerProject ''/proj''))
   = [(''/'', Some False, Some False), (''*'', Some False, Some True),
      (''/a'', Some False, Some False)]"
  by code_simp

section \<open>Order of the configuration-file checks\<close>

lemma manifestless_no_match:
  "\<not> pathExists env (path_join env [projectPath, ''package.json'']) \<Longrightarrow>
   detectFromManifest env projectPath = Inr None"
  by (simp add: detectFromManifest_def)

text \<open>
  Claim C6, as amended: when no framework is matched from the manifest, detection falls
  back to the configuration files, and the files of the first framework are checked
  first: the project is nextjs without a version if \<open>next.config.js\<close> or
  \<open>next.config.ts\<close> exists, otherwise vite without a version if \<open>vite.config.js\<close> or
  \<open>vite.config.ts\<close> exists, otherwise unknown.
\<close>

theorem config_file_fallback:
  assumes "detectFromManifest env projectPath = Inr None"
  shows "detectFramework env projectPath =
           Inr (if pathExists env (path_join env [projectPath, ''next.config.js''])
                   \<or> pathExists env (path_join env [projectPath, ''next.config.ts''])
                then \<lparr>name = nextjs, version = None\<rparr>
                else if pathExists env (path_join env [projectPath, ''vite.config.js''])
                   \<or> pathExists env (path_join env [projectPath, ''vite.config.ts''])
                then \<lparr>name = vite, version = None\<rparr>
                else \<lparr>name = unknown, version = None\<rparr>)"
  using assms by (simp add: detectFramework_def detectFromConfigFiles_def)

theorem config_file_fallback_witness:
  "detectFromManifest bothConfigsProject ''/proj'' = Inr None
   \<and> detectFramework bothConfigsProject ''/proj'' = Inr \<lparr>name = nextjs, version = None\<rparr>"
proof -
  have h: "detectFromManifest bothConfigsProject ''/proj'' = Inr None" by code_simp
  have n: "pathExists bothConfigsProject (path_join bothConfigsProject [''/proj'', ''next.config.js''])"
    by code_simp
  show ?thesis using h n config_file_fallback [OF h] by simp
qed

text \<open>
  The claim as first stated, that a project without a manifest that has a vite
  configuration file is always classified as vite, fails on \<open>bothConfigsProject\<close>: it has
  no manifest, it has \<open>vite.config.js\<close>, and it is classified as nextjs.
\<close>

theorem vite_config_first_counterexample:
  "\<not> pathExists bothConfigsProject (path_join bothConfigsProject [''/proj'', ''package.json''])
   \<and> pathExists bothConfigsProject (path_join bothConfigsProject [''/proj'', ''vite.config.js''])
   \<and> detectFramework bothConfigsProject ''/proj'' \<noteq> Inr \<lparr>name = vite, version = None\<rparr>"
  by code_simp

section \<open>A project root that does not exist\<close>

text \<open>
  Claim C7: if the project root does not exist, \<open>extractSiteRoutes\<close> returns a result with
  exactly one error, whose text contains \<open>does not exist\<close>, with no routes and the
  framework unknown. The function is total and its value is the result itself: nothing
  is thrown to the caller.
\<close>

theorem missing_root:
  assumes "\<not> pathExists env projectPath"
  shows "errors (extractSiteRoutes env projectPath) = [''Project path does not exist: '' @ projectPath]
         \<and> length (errors (extractSiteRoutes env projectPath)) = 1
         \<and> includesStr (errors (extractSiteRoutes env projectPath) ! 0) ''does not exist''
         \<and> routes (extractSiteRoutes env projectPath) = []
         \<and> framework (extractSiteRoutes env projectPath) = \<lparr>name = unknown, version = None\<rparr>"
proof -
  have r: "extractSiteRoutes env projectPath =
           \<lparr>framework = \<lparr>name = unknown, version = None\<rparr>, routes = [],
            errors = [''Project path does not exist: '' @ projectPath]\<rparr>"
    using assms by (simp add: extractSiteRoutes_def)
  have "includesStr (''Project path '' @ ''does not exist'' @ '': '' @ projectPath) ''does not exist''"
    by (rule includesStr_append)
  then have "includesStr (''Project path does not exist: '' @ projectPath) ''does not exist''"
    by simp
  with r show ?thesis by simp
qed

theorem missing_root_witness:
  "\<not> pathExists pagesProject ''/nowhere''
   \<and> errors (extractSiteRoutes pagesProject ''/nowhere'') = [''Project path does not exist: /nowhere'']
   \<and> routes (extractSiteRoutes pagesProject ''/nowhere'') = []
   \<and> framework (extractSiteRoutes pagesProject ''/nowhere'') = \<lparr>name = unknown, version = None\<rparr>"
proof -
  have h: "\<not> pathExists pagesProject ''/nowhere''" by code_simp
  show ?thesis using h missing_root [OF h] by simp
qed

section \<open>Declarations without a usable path\<close>













section \<open>Deduplication in the declaration strategy\<close>

lemma set_dropLaterDuplicates: "set (dropLaterDuplicates key xs) \<subseteq> set xs"
proof (induction key xs rule: dropLaterDuplicates.induct)
  case (1 key) show ?case by simp
next
  case (2 key x xs) then show ?case by auto
qed

lemma distinct_dropLaterDuplicates: "distinct (map key (dropLaterDuplicates key xs))"
proof (induction key xs rule: dropLaterDuplicates.induct)
  case (1 key) show ?case by simp
next
  case (2 key x xs)
  have "key x \<notin> key ` set (dropLaterDuplicates key (filter (\<lambda>y. key y \<noteq> key x) xs))"
    using set_dropLaterDuplicates [of key "filter (\<lambda>y. key y \<noteq> key x) xs"] by auto
  with 2 show ?case by simp
qed

lemma addRoutes_dropLaterDuplicates:
  "fst (addRoutes (acc, seen) rs) =
     acc @ dropLaterDuplicates routeKey (filter (\<lambda>r. routeKey r \<notin> seen) rs)"
proof (induction rs arbitrary: acc seen)
  case Nil
  show ?case by simp
next
  case (Cons r rs)
  show ?case
  proof (cases "routeKey r \<in> seen")
    case True
    then show ?thesis using Cons.IH [of acc seen] by simp
  next
    case False
    have "filter (\<lambda>x. routeKey x \<notin> insert (routeKey r) seen) rs
          = filter (\<lambda>y. routeKey y \<noteq> routeKey r) (filter (\<lambda>x. routeKey x \<notin> seen) rs)"
      by (induction rs) auto
    with False show ?thesis
      using Cons.IH [of "acc @ [r]" "insert (routeKey r) seen"] by simp
  qed
qed

lemma addRoutes_append: "addRoutes st (xs @ ys) = addRoutes (addRoutes st xs) ys"
proof (induction xs arbitrary: st)
  case Nil
  show ?case by (cases st) simp
next
  case (Cons x xs)
  show ?case by (cases st) (simp add: Cons.IH)
qed

lemma addRoutes_Nil: "addRoutes st [] = st"
  by (cases st) simp

lemma foldl_addRoutes: "foldl addRoutes st rss = addRoutes st (concat rss)"
  by (induction rss arbitrary: st) (simp_all add: addRoutes_Nil addRoutes_append)

lemma viteLoop_acc: "viteLoop env p acc files = acc @ viteLoop env p [] files"
proof (induction files arbitrary: acc)
  case Nil
  show ?case by simp
next
  case (Cons f files)
  show ?case
  proof (cases "readFile env f")
    case (Inl message)
    then show ?thesis by simp
  next
    case (Inr content)
    show ?thesis
      using Inr Cons.IH [of "acc @ extractReactRouterRoutesFromFile env f content p"]
        Cons.IH [of "extractReactRouterRoutesFromFile env f content p"] Cons.IH [of acc]
      by simp
  qed
qed

lemma reactRouterLoop_viteLoop:
  "reactRouterLoop env p st files = addRoutes st (viteLoop env p [] files)"
proof (induction files arbitrary: st)
  case Nil
  show ?case by (simp add: addRoutes_Nil)
next
  case (Cons f files)
  show ?case
  proof (cases "readFile env f")
    case (Inl message)
    then show ?thesis by (simp add: addRoutes_Nil)
  next
    case (Inr content)
    show ?thesis
    proof (cases "hasRouterSignal content")
      case True
      have "viteLoop env p [] (f # files)
            = extractReactRouterRoutesFromFile env f content p @ viteLoop env p [] files"
        using Inr True viteLoop_acc [of env p "extractReactRouterRoutesFromFile env f content p" files]
        by simp
      then show ?thesis using Inr True by (simp add: Cons.IH addRoutes_append)
    next
      case False
      then show ?thesis using Inr by (simp add: Cons.IH)
    qed
  qed
qed

text \<open>
  The scan of the declaration strategy gives the routes of the scan of the bundler
  strategy, with every record dropped whose key an earlier record has.
\<close>

lemma extractReactRouterRoutes_dedup:
  "extractReactRouterRoutes env projectPath =
     dropLaterDuplicates routeKey (extractViteRoutes env projectPath)"
  by (simp add: extractReactRouterRoutes_def extractViteRoutes_def reactRouterLoop_viteLoop
                addRoutes_dropLaterDuplicates split: sum.splits)

lemma routeKey_pair: "routeKey r = keyOfPair (pathAndComponent r)"
  by (simp add: routeKey_def keyOfPair_def pathAndComponent_def)

lemma distinct_map_through: "distinct (map (\<lambda>x. g (f x)) xs) \<Longrightarrow> distinct (map f xs)"
  by (induction xs) auto

lemma distinct_pairs_dropLaterDuplicates:
  "distinct (map pathAndComponent (dropLaterDuplicates routeKey xs))"
proof -
  have "distinct (map (\<lambda>r. keyOfPair (pathAndComponent r)) (dropLaterDuplicates routeKey xs))"
    using distinct_dropLaterDuplicates [of routeKey xs] by (simp add: routeKey_pair [abs_def])
  then show ?thesis by (rule distinct_map_through)
qed

text \<open>
  The two notions of duplicate agree on a list of records whose paths have no bar and
  whose components are present and not empty.
\<close>

lemma bar_split_unique:
  assumes "CHR ''|'' \<notin> set p1" and "CHR ''|'' \<notin> set p2"
    and "p1 @ CHR ''|'' # c1 = p2 @ CHR ''|'' # c2"
  shows "p1 = p2 \<and> c1 = c2"
  using assms
proof (induction p1 arbitrary: p2)
  case Nil
  then show ?case by (cases p2) auto
next
  case (Cons a p1)
  then show ?case by (cases p2) auto
qed

lemma dropLaterDuplicates_cong:
  "(\<And>x y. x \<in> set xs \<Longrightarrow> y \<in> set xs \<Longrightarrow> (k1 x = k1 y) = (k2 x = k2 y)) \<Longrightarrow>
   dropLaterDuplicates k1 xs = dropLaterDuplicates k2 xs"
proof (induction k1 xs rule: dropLaterDuplicates.induct)
  case (1 key)
  show ?case by simp
next
  case (2 key x xs)
  have f: "filter (\<lambda>y. key y \<noteq> key x) xs = filter (\<lambda>y. k2 y \<noteq> k2 x) xs"
    by (rule filter_cong) (use "2.prems" in auto)
  have "dropLaterDuplicates key (filter (\<lambda>y. key y \<noteq> key x) xs)
        = dropLaterDuplicates k2 (filter (\<lambda>y. key y \<noteq> key x) xs)"
    by (rule "2.IH") (use "2.prems" in auto)
  then show ?case by (simp add: f)
qed

lemma key_deduplication_is_pair_deduplication:
  assumes "\<And>r. r \<in> set rs \<Longrightarrow> CHR ''|'' \<notin> set (path r)"
    and "\<And>r. r \<in> set rs \<Longrightarrow> \<exists>c. component r = Some c \<and> c \<noteq> []"
  shows "dropLaterDuplicates routeKey rs = dropLaterDuplicates pathAndComponent rs"
proof (rule dropLaterDuplicates_cong)
  fix x y assume x: "x \<in> set rs" and y: "y \<in> set rs"
  from assms(2) [OF x] obtain cx where cx: "component x = Some cx" "cx \<noteq> []" by blast
  from assms(2) [OF y] obtain cy where cy: "component y = Some cy" "cy \<noteq> []" by blast
  show "(routeKey x = routeKey y) = (pathAndComponent x = pathAndComponent y)"
    using bar_split_unique [OF assms(1) [OF x] assms(1) [OF y], of cx cy] cx cy
    by (auto simp: routeKey_def pathAndComponent_def truthy_def)
qed

text \<open>
  So on a project whose declared paths have no bar, the declaration strategy gives the
  routes of the bundler strategy with later records of the same path and component
  removed.
\<close>

lemma declaration_pair_deduplication_without_bar:
  assumes "\<And>r. r \<in> set (extractViteRoutes env p) \<Longrightarrow> CHR ''|'' \<notin> set (path r)"
    and "\<And>r. r \<in> set (extractViteRoutes env p) \<Longrightarrow> \<exists>c. component r = Some c \<and> c \<noteq> []"
  shows "extractReactRouterRoutes env p =
           dropLaterDuplicates pathAndComponent (extractViteRoutes env p)"
  using assms
  by (simp add: extractReactRouterRoutes_dedup key_deduplication_is_pair_deduplication)

text \<open>
  Claim C5: the declaration strategy should deduplicate by the pair of route path and
  component file, keeping the first occurrence and dropping later duplicates, so that a
  record whose pair has not occurred before stays. The strategy compares the string made
  of the path, a bar and the component instead. On \<open>barProject\<close> the file \<open>c.tsx\<close>
  declares the path \<open>/a|b\<close> and the file \<open>b|c.tsx\<close> declares the path \<open>/a\<close>: the
  two records differ in path and in component, their strings are equal, and the result
  of the strategy holds the first record only.
\<close>

theorem bar_project_fresh_pair_dropped:
  "map pathAndComponent (extractReactRouterRoutesFromFile barProject ''/proj/c.tsx'' ''Routes 1'' ''/proj'')
     = [(''/a|b'', Some ''c.tsx'')]
   \<and> map pathAndComponent
         (extractReactRouterRoutesFromFile barProject ''/proj/b|c.tsx'' ''Routes 2'' ''/proj'')
     = [(''/a'', Some ''b|c.tsx'')]
   \<and> map pathAndComponent (extractReactRouterRoutes barProject ''/proj'') = [(''/a|b'', Some ''c.tsx'')]"
  by code_simp

section \<open>The bundler strategy and the declaration strategy\<close>

text \<open>
  Claim C9: the output of the declaration strategy should be the output of the bundler
  strategy with later duplicates by path and component removed. Both strategies list the
  same files, keep the same ones and extract from each in the same way
  (\<open>extractReactRouterRoutes_dedup\<close>), but the duplicates removed are those of the string
  key. On \<open>barProject\<close> the bundler strategy gives two records with different pairs,
  so removing later duplicates by pair leaves both, and the declaration strategy gives
  one.
\<close>

theorem bar_project_strategies:
  "map pathAndComponent (extractViteRoutes barProject ''/proj'')
     = [(''/a|b'', Some ''c.tsx''), (''/a'', Some ''b|c.tsx'')]
   \<and> dropLaterDuplicates pathAndComponent (extractViteRoutes barProject ''/proj'')
     = extractViteRoutes barProject ''/proj''
   \<and> map pathAndComponent (extractReactRouterRoutes barProject ''/proj'') = [(''/a|b'', Some ''c.tsx'')]
   \<and> extractReactRouterRoutes barProject ''/proj''
     \<noteq> dropLaterDuplicates pathAndComponent (extractViteRoutes barProject ''/proj'')"
  by code_simp


section \<open>Resolved component paths\<close>






text \<open>An external specifier is returned as it is.\<close>

lemma resolveImportPath_external:
  "externalSpecifier s \<Longrightarrow> resolveImportPath env s currentFile projectPath = s"
  by (simp add: resolveImportPath_def externalSpecifier_def)



























end
